theory Spec2Isabelle
  imports Main
begin

section \<open>JavaScript values read by the adapter\<close>

text \<open>
  The adapter reads provider JSON and caller input with JavaScript's truthiness:
  \<^verbatim>\<open>if (x)\<close>, \<^verbatim>\<open>x || d\<close> and \<^verbatim>\<open>!!x\<close> treat \<^verbatim>\<open>null\<close>, \<^verbatim>\<open>undefined\<close>,
  the empty string, \<^verbatim>\<open>0\<close> and \<^verbatim>\<open>false\<close> alike. A field of type
  \<^verbatim>\<open>T | null\<close> or \<^verbatim>\<open>T?\<close> is an \<open>option\<close>; \<open>None\<close> stands for both
  \<^verbatim>\<open>null\<close> and \<^verbatim>\<open>undefined\<close>, which the code never tells apart.
  Numbers are \<open>int\<close>: every number the modelled code reads is a count or a page index.
\<close>

definition truthy :: "string option \<Rightarrow> bool" where
  "truthy s = (case s of None \<Rightarrow> False | Some v \<Rightarrow> v \<noteq> [])"

definition truthy_num :: "int option \<Rightarrow> bool" where
  "truthy_num n = (case n of None \<Rightarrow> False | Some v \<Rightarrow> v \<noteq> 0)"

definition truthy_flag :: "bool option \<Rightarrow> bool" where
  "truthy_flag b = (case b of None \<Rightarrow> False | Some v \<Rightarrow> v)"

text \<open>\<^verbatim>\<open>a || b\<close> on optional strings, and \<^verbatim>\<open>a || null\<close>.\<close>

definition js_or :: "string option \<Rightarrow> string option \<Rightarrow> string option" where
  "js_or a b = (if truthy a then a else b)"

definition or_null :: "string option \<Rightarrow> string option" where
  "or_null a = js_or a None"

definition or_null_num :: "int option \<Rightarrow> int option" where
  "or_null_num a = (if truthy_num a then a else None)"

text \<open>\<^verbatim>\<open>a || d\<close> where \<open>d\<close> is a number that is always there.\<close>

definition num_or :: "int option \<Rightarrow> int \<Rightarrow> int" where
  "num_or a d = (case a of None \<Rightarrow> d | Some v \<Rightarrow> if v \<noteq> 0 then v else d)"

definition str_or :: "string option \<Rightarrow> string \<Rightarrow> string" where
  "str_or a d = (case a of None \<Rightarrow> d | Some v \<Rightarrow> if v \<noteq> [] then v else d)"

section \<open>Provider and canonical types (apollo/types.ts)\<close>

text \<open>
  Field names carry a short prefix per interface, since several interfaces share
  \<^verbatim>\<open>id\<close>, \<^verbatim>\<open>name\<close>, \<^verbatim>\<open>linkedin_url\<close> and others.
\<close>

record ApolloOrganization =
  org_id :: string
  org_name :: "string option"
  org_website_url :: "string option"
  org_linkedin_url :: "string option"
  org_primary_domain :: "string option"
  org_logo_url :: "string option"
  org_industry :: "string option"
  org_estimated_num_employees :: "int option"

record ApolloEmployment =
  emp_id :: string
  emp_title :: "string option"
  emp_organization_name :: "string option"
  emp_organization_id :: "string option"
  emp_current :: bool
  emp_start_date :: "string option"
  emp_end_date :: "string option"

text \<open>
  A search-result person. The normalizer is defined on the extensible record, so that a
  provider object carrying further keys (an \<^verbatim>\<open>email\<close>, say) is an input too.
\<close>

record ApolloPersonSearch =
  sp_id :: string
  sp_first_name :: "string option"
  sp_last_name :: "string option"
  sp_name :: "string option"
  sp_title :: "string option"
  sp_headline :: "string option"
  sp_linkedin_url :: "string option"
  sp_email_status :: "string option"
  sp_photo_url :: "string option"
  sp_twitter_url :: "string option"
  sp_github_url :: "string option"
  sp_facebook_url :: "string option"
  sp_state :: "string option"
  sp_city :: "string option"
  sp_country :: "string option"
  sp_organization_id :: "string option"
  sp_organization :: "ApolloOrganization option"
  sp_employment_history :: "ApolloEmployment list option"

text \<open>
  \<^verbatim>\<open>sanitized_number\<close> is declared \<^verbatim>\<open>string\<close>, but the value is unvalidated JSON
  and the normalizer guards against its absence, so it is optional here.
\<close>

record ApolloPhoneNumber =
  raw_number :: string
  sanitized_number :: "string option"
  phone_type :: string
  phone_position :: int
  phone_status :: string

record ApolloEnrichedPerson =
  ep_id :: string
  ep_first_name :: "string option"
  ep_last_name :: "string option"
  ep_name :: "string option"
  ep_title :: "string option"
  ep_headline :: "string option"
  ep_linkedin_url :: "string option"
  ep_email :: "string option"
  ep_email_status :: "string option"
  ep_personal_emails :: "string list option"
  ep_phone_numbers :: "ApolloPhoneNumber list option"
  ep_sanitized_phone :: "string option"
  ep_organization_id :: "string option"
  ep_organization :: "ApolloOrganization option"
  ep_photo_url :: "string option"
  ep_twitter_url :: "string option"
  ep_github_url :: "string option"
  ep_facebook_url :: "string option"
  ep_state :: "string option"
  ep_city :: "string option"
  ep_country :: "string option"
  ep_employment_history :: "ApolloEmployment list option"

record Location =
  loc_city :: "string option"
  loc_state :: "string option"
  loc_country :: "string option"

record Company =
  co_id :: "string option"
  co_name :: "string option"
  co_domain :: "string option"
  co_website :: "string option"
  co_linkedin_url :: "string option"
  co_industry :: "string option"
  co_employee_count :: "int option"

record Social =
  soc_twitter_url :: "string option"
  soc_github_url :: "string option"
  soc_facebook_url :: "string option"

record NormalizedPerson =
  np_apollo_id :: string
  np_name :: "string option"
  np_first_name :: "string option"
  np_last_name :: "string option"
  np_title :: "string option"
  np_headline :: "string option"
  np_linkedin_url :: "string option"
  np_email :: "string option"
  np_email_status :: "string option"
  np_personal_emails :: "string list"
  np_phone_numbers :: "string list"
  np_location :: Location
  np_company :: Company
  np_social :: Social

section \<open>Normalizers (ApolloClient.normalizeSearchPerson, normalizeEnrichedPerson)\<close>

text \<open>
  \<^verbatim>\<open>person.organization?.f || null\<close>: the field of the nested object when the object
  is there and the field is truthy, otherwise \<^verbatim>\<open>null\<close>.
\<close>

definition org_field :: "ApolloOrganization option \<Rightarrow> (ApolloOrganization \<Rightarrow> string option) \<Rightarrow> string option" where
  "org_field org f = or_null (case org of None \<Rightarrow> None | Some o' \<Rightarrow> f o')"

definition org_field_num :: "ApolloOrganization option \<Rightarrow> (ApolloOrganization \<Rightarrow> int option) \<Rightarrow> int option" where
  "org_field_num org f = or_null_num (case org of None \<Rightarrow> None | Some o' \<Rightarrow> f o')"

definition company_of :: "string option \<Rightarrow> ApolloOrganization option \<Rightarrow> Company" where
  "company_of organization_id org =
     \<lparr> co_id = organization_id,
       co_name = org_field org org_name,
       co_domain = org_field org org_primary_domain,
       co_website = org_field org org_website_url,
       co_linkedin_url = org_field org org_linkedin_url,
       co_industry = org_field org org_industry,
       co_employee_count = org_field_num org org_estimated_num_employees \<rparr>"

definition normalizeSearchPerson :: "'z ApolloPersonSearch_scheme \<Rightarrow> NormalizedPerson" where
  "normalizeSearchPerson person =
     \<lparr> np_apollo_id = sp_id person,
       np_name = sp_name person,
       np_first_name = sp_first_name person,
       np_last_name = sp_last_name person,
       np_title = sp_title person,
       np_headline = sp_headline person,
       np_linkedin_url = sp_linkedin_url person,
       np_email = None,
       np_email_status = sp_email_status person,
       np_personal_emails = [],
       np_phone_numbers = [],
       np_location = \<lparr> loc_city = sp_city person, loc_state = sp_state person,
                       loc_country = sp_country person \<rparr>,
       np_company = company_of (sp_organization_id person) (sp_organization person),
       np_social = \<lparr> soc_twitter_url = sp_twitter_url person,
                     soc_github_url = sp_github_url person,
                     soc_facebook_url = sp_facebook_url person \<rparr> \<rparr>"

text \<open>
  The loop over \<^verbatim>\<open>person.phone_numbers\<close>: an entry is pushed when its sanitized
  number is truthy and \<^verbatim>\<open>phoneNumbers.includes\<close> does not find it.
\<close>

fun push_phones :: "ApolloPhoneNumber list \<Rightarrow> string list \<Rightarrow> string list" where
  "push_phones [] phoneNumbers = phoneNumbers"
| "push_phones (phone # rest) phoneNumbers =
     push_phones rest
       (case sanitized_number phone of
          None \<Rightarrow> phoneNumbers
        | Some s \<Rightarrow> if s \<noteq> [] \<and> s \<notin> set phoneNumbers then phoneNumbers @ [s] else phoneNumbers)"

definition enriched_phone_numbers :: "ApolloEnrichedPerson \<Rightarrow> string list" where
  "enriched_phone_numbers person =
     (let phoneNumbers = (case ep_sanitized_phone person of
                            None \<Rightarrow> []
                          | Some s \<Rightarrow> if s \<noteq> [] then [s] else [])
      in case ep_phone_numbers person of
           None \<Rightarrow> phoneNumbers
         | Some phones \<Rightarrow> push_phones phones phoneNumbers)"

definition normalizeEnrichedPerson :: "ApolloEnrichedPerson \<Rightarrow> NormalizedPerson" where
  "normalizeEnrichedPerson person =
     \<lparr> np_apollo_id = ep_id person,
       np_name = ep_name person,
       np_first_name = ep_first_name person,
       np_last_name = ep_last_name person,
       np_title = ep_title person,
       np_headline = ep_headline person,
       np_linkedin_url = ep_linkedin_url person,
       np_email = ep_email person,
       np_email_status = ep_email_status person,
       np_personal_emails = (case ep_personal_emails person of None \<Rightarrow> [] | Some es \<Rightarrow> es),
       np_phone_numbers = enriched_phone_numbers person,
       np_location = \<lparr> loc_city = ep_city person, loc_state = ep_state person,
                       loc_country = ep_country person \<rparr>,
       np_company = company_of (ep_organization_id person) (ep_organization person),
       np_social = \<lparr> soc_twitter_url = ep_twitter_url person,
                     soc_github_url = ep_github_url person,
                     soc_facebook_url = ep_facebook_url person \<rparr> \<rparr>"

section \<open>HTTP transport (the fetch call inside ApolloClient.makeRequest)\<close>

text \<open>
  A request body is a JavaScript object built key by key; it is an association list in
  insertion order. The provider's JSON answer is a \<^verbatim>\<open>Record<string, unknown>\<close>;
  \<open>ApiJson\<close> has one optional field for every key the client reads from it.
  The network is a function from the request sent to what \<^verbatim>\<open>fetch\<close> yields: a
  rejected promise (\<open>NetworkFailure\<close>) or a response, whose \<open>json\<close> is \<open>None\<close>
  when the body does not parse.
\<close>

datatype body_value = BStr string | BNum int | BBool bool | BStrs "string list"

type_synonym json_body = "(string \<times> body_value) list"

record http_request =
  req_url :: string
  req_method :: string
  req_headers :: "(string \<times> string) list"
  req_body :: json_body

record RawPagination =
  rp_page :: "int option"
  rp_per_page :: "int option"
  rp_total_entries :: "int option"
  rp_total_pages :: "int option"

record ApiJson =
  j_people :: "ApolloPersonSearch list option"
  j_pagination :: "RawPagination option"
  j_person :: "ApolloEnrichedPerson option"
  j_status :: "string option"
  j_enrichment_request_id :: "string option"
  j_enrichment_status :: "string option"
  j_credits_used :: "int option"

record http_response =
  status :: nat
  statusText :: string
  json :: "ApiJson option"

datatype fetch_result = NetworkFailure string | Response http_response

type_synonym fetch = "http_request \<Rightarrow> fetch_result"

text \<open>
  What a call can throw: zod's error with its issues, the \<^verbatim>\<open>Error\<close> that
  \<^verbatim>\<open>makeRequest\<close> constructs, the rejection of \<^verbatim>\<open>fetch\<close> itself, and the
  rejection of \<^verbatim>\<open>response.json()\<close>.
\<close>

datatype issue = FieldIssue string | Custom string

datatype error = ZodError "issue list" | Error string | FetchRejected string | JsonRejected

text \<open>\<^verbatim>\<open>response.ok\<close>: the status is in the range 200-299.\<close>

definition ok :: "http_response \<Rightarrow> bool" where
  "ok r = (200 \<le> status r \<and> status r \<le> 299)"

text \<open>The decimal digits of a number, as a template literal prints it.\<close>

definition digit_char :: "nat \<Rightarrow> char" where
  "digit_char d = ''0123456789'' ! d"

function show_nat :: "nat \<Rightarrow> string" where
  "show_nat n = (if n < 10 then [digit_char n] else show_nat (n div 10) @ [digit_char (n mod 10)])"
  by pat_completeness auto
termination
  by (relation "measure (\<lambda>n. n)") auto

declare show_nat.simps [simp del]

section \<open>The provider client (ApolloClient)\<close>

definition APOLLO_BASE_URL :: string where
  "APOLLO_BASE_URL = ''https://api.apollo.io/api/v1''"

definition SEARCH_ENDPOINT :: string where
  "SEARCH_ENDPOINT = APOLLO_BASE_URL @ ''/mixed_people/search''"

definition ENRICHMENT_ENDPOINT :: string where
  "ENRICHMENT_ENDPOINT = APOLLO_BASE_URL @ ''/people/match''"

record ApolloClient =
  apiKey :: string

definition new_ApolloClient :: "string \<Rightarrow> error + ApolloClient" where
  "new_ApolloClient key =
     (if key = [] then Inl (Error ''Apollo API key is required'') else Inr \<lparr> apiKey = key \<rparr>)"

definition request_of :: "ApolloClient \<Rightarrow> string \<Rightarrow> json_body \<Rightarrow> http_request" where
  "request_of client url body =
     \<lparr> req_url = url,
       req_method = ''POST'',
       req_headers = [(''Content-Type'', ''application/json''),
                      (''x-api-key'', apiKey client),
                      (''Cache-Control'', ''no-cache'')],
       req_body = body \<rparr>"

definition makeRequest :: "fetch \<Rightarrow> ApolloClient \<Rightarrow> string \<Rightarrow> json_body \<Rightarrow> error + ApiJson" where
  "makeRequest fetch client url body =
     (case fetch (request_of client url body) of
        NetworkFailure m \<Rightarrow> Inl (FetchRejected m)
      | Response response \<Rightarrow>
          if \<not> ok response
          then Inl (Error (''Apollo API error: '' @ show_nat (status response) @ '' ''
                           @ statusText response))
          else (case json response of
                  None \<Rightarrow> Inl JsonRejected
                | Some j \<Rightarrow> Inr j))"

subsection \<open>searchPeople\<close>

record SearchParams =
  sq_person_titles :: "string list option"
  sq_person_locations :: "string list option"
  sq_q_keywords :: "string option"
  sq_page :: "int option"
  sq_per_page :: "int option"

record PaginationInfo =
  pg_page :: int
  pg_per_page :: int
  pg_total_entries :: int
  pg_total_pages :: int

record ApolloSearchResponse =
  asr_people :: "ApolloPersonSearch list"
  asr_pagination :: PaginationInfo

text \<open>Body entries that are written only under a truthiness guard.\<close>

definition str_entry :: "string \<Rightarrow> string option \<Rightarrow> json_body" where
  "str_entry k v = (case v of None \<Rightarrow> [] | Some s \<Rightarrow> if s \<noteq> [] then [(k, BStr s)] else [])"

definition strs_entry :: "string \<Rightarrow> string list option \<Rightarrow> json_body" where
  "strs_entry k v = (case v of None \<Rightarrow> [] | Some ss \<Rightarrow> if 0 < length ss then [(k, BStrs ss)] else [])"

definition flag_entry :: "string \<Rightarrow> bool option \<Rightarrow> json_body" where
  "flag_entry k v = (if truthy_flag v then [(k, BBool True)] else [])"

definition search_body :: "SearchParams \<Rightarrow> json_body" where
  "search_body params =
     [(''page'', BNum (num_or (sq_page params) 1)),
      (''per_page'', BNum (min (num_or (sq_per_page params) 25) 100))]
     @ strs_entry ''person_titles'' (sq_person_titles params)
     @ strs_entry ''person_locations'' (sq_person_locations params)
     @ str_entry ''q_keywords'' (sq_q_keywords params)"

text \<open>\<^verbatim>\<open>response.pagination?.f\<close>.\<close>

definition pagination_field :: "RawPagination option \<Rightarrow> (RawPagination \<Rightarrow> int option) \<Rightarrow> int option" where
  "pagination_field p f = (case p of None \<Rightarrow> None | Some pg \<Rightarrow> f pg)"

definition searchPeople :: "fetch \<Rightarrow> ApolloClient \<Rightarrow> SearchParams \<Rightarrow> error + ApolloSearchResponse" where
  "searchPeople fetch client params =
     (case makeRequest fetch client SEARCH_ENDPOINT (search_body params) of
        Inl e \<Rightarrow> Inl e
      | Inr response \<Rightarrow>
          Inr \<lparr> asr_people = (case j_people response of None \<Rightarrow> [] | Some ps \<Rightarrow> ps),
                asr_pagination =
                  \<lparr> pg_page = num_or (pagination_field (j_pagination response) rp_page)
                                     (num_or (sq_page params) 1),
                    pg_per_page = num_or (pagination_field (j_pagination response) rp_per_page)
                                         (num_or (sq_per_page params) 25),
                    pg_total_entries =
                      num_or (pagination_field (j_pagination response) rp_total_entries) 0,
                    pg_total_pages =
                      num_or (pagination_field (j_pagination response) rp_total_pages) 0 \<rparr> \<rparr>)"

subsection \<open>enrichPerson\<close>

record ApolloEnrichmentRequest =
  rq_email :: "string option"
  rq_linkedin_url :: "string option"
  rq_first_name :: "string option"
  rq_last_name :: "string option"
  rq_name :: "string option"
  rq_organization_name :: "string option"
  rq_domain :: "string option"
  rq_reveal_personal_emails :: "bool option"
  rq_reveal_phone_number :: "bool option"
  rq_run_waterfall_email :: "bool option"
  rq_run_waterfall_phone :: "bool option"
  rq_webhook_url :: "string option"

record ApolloEnrichmentResponse =
  aer_person :: "ApolloEnrichedPerson option"
  aer_status :: string
  aer_enrichment_request_id :: "string option"
  aer_enrichment_status :: "string option"
  aer_credits_used :: "int option"

definition enrich_body :: "ApolloEnrichmentRequest \<Rightarrow> json_body" where
  "enrich_body params =
     str_entry ''email'' (rq_email params)
     @ str_entry ''linkedin_url'' (rq_linkedin_url params)
     @ str_entry ''first_name'' (rq_first_name params)
     @ str_entry ''last_name'' (rq_last_name params)
     @ str_entry ''name'' (rq_name params)
     @ str_entry ''organization_name'' (rq_organization_name params)
     @ str_entry ''domain'' (rq_domain params)
     @ flag_entry ''reveal_personal_emails'' (rq_reveal_personal_emails params)
     @ flag_entry ''reveal_phone_number'' (rq_reveal_phone_number params)
     @ flag_entry ''run_waterfall_email'' (rq_run_waterfall_email params)
     @ flag_entry ''run_waterfall_phone'' (rq_run_waterfall_phone params)
     @ str_entry ''webhook_url'' (rq_webhook_url params)"

definition enrichPerson :: "fetch \<Rightarrow> ApolloClient \<Rightarrow> ApolloEnrichmentRequest \<Rightarrow> error + ApolloEnrichmentResponse" where
  "enrichPerson fetch client params =
     (case makeRequest fetch client ENRICHMENT_ENDPOINT (enrich_body params) of
        Inl e \<Rightarrow> Inl e
      | Inr response \<Rightarrow>
          Inr \<lparr> aer_person = j_person response,
                aer_status = str_or (j_status response) ''unknown'',
                aer_enrichment_request_id = j_enrichment_request_id response,
                aer_enrichment_status = j_enrichment_status response,
                aer_credits_used = j_credits_used response \<rparr>)"

section \<open>The search tool (tools/search.ts)\<close>

text \<open>
  The tools receive caller input of type \<^verbatim>\<open>unknown\<close> and parse it with a zod
  schema. The input is modelled at the shape of the schema: one optional field for each
  key, holding a value of the key's type (zod drops unknown keys; a value of another
  type is outside this model). A failed check records an issue and the parse fails when
  an issue was recorded; the refinements of the enrich schema run on the parsed object
  and record their own messages. A string's \<open>length\<close> stands for zod's
  \<^verbatim>\<open>max\<close>, which counts UTF-16 units.
\<close>

record SearchPeopleInput =
  si_person_titles :: "string list"
  si_person_locations :: "string list option"
  si_q_keywords :: "string option"
  si_page :: int
  si_per_page :: int

record SearchResult =
  sr_people :: "NormalizedPerson list"
  sr_pagination :: PaginationInfo

definition check_field :: "string \<Rightarrow> ('a \<Rightarrow> bool) \<Rightarrow> 'a option \<Rightarrow> issue list" where
  "check_field k valid v = (case v of None \<Rightarrow> [] | Some x \<Rightarrow> if valid x then [] else [FieldIssue k])"

definition required_field :: "string \<Rightarrow> ('a \<Rightarrow> bool) \<Rightarrow> 'a option \<Rightarrow> issue list" where
  "required_field k valid v =
     (case v of None \<Rightarrow> [FieldIssue k] | Some x \<Rightarrow> if valid x then [] else [FieldIssue k])"

definition search_issues :: "SearchParams \<Rightarrow> issue list" where
  "search_issues input =
     required_field ''person_titles'' (\<lambda>ts. 1 \<le> length ts \<and> length ts \<le> 50)
        (sq_person_titles input)
     @ check_field ''person_locations'' (\<lambda>ls. length ls \<le> 50) (sq_person_locations input)
     @ check_field ''q_keywords'' (\<lambda>s. length s \<le> 500) (sq_q_keywords input)
     @ check_field ''page'' (\<lambda>n. 1 \<le> n \<and> n \<le> 100) (sq_page input)
     @ check_field ''per_page'' (\<lambda>n. 1 \<le> n \<and> n \<le> 100) (sq_per_page input)"

definition searchPeopleInputSchema_parse :: "SearchParams \<Rightarrow> error + SearchPeopleInput" where
  "searchPeopleInputSchema_parse input =
     (if search_issues input \<noteq> [] then Inl (ZodError (search_issues input))
      else Inr \<lparr> si_person_titles = (case sq_person_titles input of None \<Rightarrow> [] | Some ts \<Rightarrow> ts),
                 si_person_locations = sq_person_locations input,
                 si_q_keywords = sq_q_keywords input,
                 si_page = (case sq_page input of None \<Rightarrow> 1 | Some n \<Rightarrow> n),
                 si_per_page = (case sq_per_page input of None \<Rightarrow> 25 | Some n \<Rightarrow> n) \<rparr>)"

text \<open>The object literal the executor passes to \<^verbatim>\<open>client.searchPeople\<close>.\<close>

definition search_params_of :: "SearchPeopleInput \<Rightarrow> SearchParams" where
  "search_params_of validatedInput =
     \<lparr> sq_person_titles = Some (si_person_titles validatedInput),
       sq_person_locations = si_person_locations validatedInput,
       sq_q_keywords = si_q_keywords validatedInput,
       sq_page = Some (si_page validatedInput),
       sq_per_page = Some (si_per_page validatedInput) \<rparr>"

definition executeSearchPeople :: "fetch \<Rightarrow> ApolloClient \<Rightarrow> SearchParams \<Rightarrow> error + SearchResult" where
  "executeSearchPeople fetch client input =
     (case searchPeopleInputSchema_parse input of
        Inl e \<Rightarrow> Inl e
      | Inr validatedInput \<Rightarrow>
          (case searchPeople fetch client (search_params_of validatedInput) of
             Inl e \<Rightarrow> Inl e
           | Inr response \<Rightarrow>
               Inr \<lparr> sr_people = map normalizeSearchPerson (asr_people response),
                     sr_pagination = asr_pagination response \<rparr>))"

section \<open>The enrich tool (tools/enrich.ts)\<close>

text \<open>
  zod's \<^verbatim>\<open>email()\<close> and \<^verbatim>\<open>url()\<close> checks belong to the library, not to this
  repository; they are parameters of the schema.
\<close>

record Formats =
  is_email :: "string \<Rightarrow> bool"
  is_url :: "string \<Rightarrow> bool"

text \<open>The parsed input: as the request, with the two reveal flags defaulted.\<close>

record EnrichPersonInput =
  vi_email :: "string option"
  vi_linkedin_url :: "string option"
  vi_first_name :: "string option"
  vi_last_name :: "string option"
  vi_name :: "string option"
  vi_organization_name :: "string option"
  vi_domain :: "string option"
  vi_reveal_personal_emails :: bool
  vi_reveal_phone_number :: bool
  vi_run_waterfall_email :: "bool option"
  vi_run_waterfall_phone :: "bool option"
  vi_webhook_url :: "string option"

record EnrichmentResult =
  er_person :: "NormalizedPerson option"
  er_status :: string
  er_enrichment_request_id :: "string option"
  er_enrichment_status :: "string option"
  er_is_async :: bool
  er_webhook_url :: "string option"

definition enrich_field_issues :: "Formats \<Rightarrow> ApolloEnrichmentRequest \<Rightarrow> issue list" where
  "enrich_field_issues fmt input =
     check_field ''email'' (is_email fmt) (rq_email input)
     @ check_field ''linkedin_url'' (is_url fmt) (rq_linkedin_url input)
     @ check_field ''first_name'' (\<lambda>s. length s \<le> 100) (rq_first_name input)
     @ check_field ''last_name'' (\<lambda>s. length s \<le> 100) (rq_last_name input)
     @ check_field ''name'' (\<lambda>s. length s \<le> 200) (rq_name input)
     @ check_field ''organization_name'' (\<lambda>s. length s \<le> 200) (rq_organization_name input)
     @ check_field ''domain'' (\<lambda>s. length s \<le> 200) (rq_domain input)
     @ check_field ''webhook_url'' (is_url fmt) (rq_webhook_url input)"

definition enrich_defaults :: "ApolloEnrichmentRequest \<Rightarrow> EnrichPersonInput" where
  "enrich_defaults input =
     \<lparr> vi_email = rq_email input,
       vi_linkedin_url = rq_linkedin_url input,
       vi_first_name = rq_first_name input,
       vi_last_name = rq_last_name input,
       vi_name = rq_name input,
       vi_organization_name = rq_organization_name input,
       vi_domain = rq_domain input,
       vi_reveal_personal_emails =
         (case rq_reveal_personal_emails input of None \<Rightarrow> False | Some b \<Rightarrow> b),
       vi_reveal_phone_number =
         (case rq_reveal_phone_number input of None \<Rightarrow> False | Some b \<Rightarrow> b),
       vi_run_waterfall_email = rq_run_waterfall_email input,
       vi_run_waterfall_phone = rq_run_waterfall_phone input,
       vi_webhook_url = rq_webhook_url input \<rparr>"

text \<open>The first refinement: at least one identifier must be provided.\<close>

definition identifier_refine :: "EnrichPersonInput \<Rightarrow> bool" where
  "identifier_refine data =
     (truthy (vi_email data)
      \<or> truthy (vi_linkedin_url data)
      \<or> (truthy (vi_first_name data) \<and> truthy (vi_last_name data)
          \<and> (truthy (vi_organization_name data) \<or> truthy (vi_domain data)))
      \<or> (truthy (vi_name data)
          \<and> (truthy (vi_organization_name data) \<or> truthy (vi_domain data))))"

text \<open>The second refinement: if waterfall is enabled, \<^verbatim>\<open>webhook_url\<close> is required.\<close>

definition webhook_refine :: "EnrichPersonInput \<Rightarrow> bool" where
  "webhook_refine data =
     (if truthy_flag (vi_run_waterfall_email data) \<or> truthy_flag (vi_run_waterfall_phone data)
      then truthy (vi_webhook_url data)
      else True)"

definition IDENTIFIER_MESSAGE :: string where
  "IDENTIFIER_MESSAGE =
     ''At least one identifier required: email, linkedin_url, or (name + company/domain)''"

definition WEBHOOK_MESSAGE :: string where
  "WEBHOOK_MESSAGE =
     ''webhook_url is required when run_waterfall_email or run_waterfall_phone is enabled''"

definition enrich_issues :: "Formats \<Rightarrow> ApolloEnrichmentRequest \<Rightarrow> issue list" where
  "enrich_issues fmt input =
     enrich_field_issues fmt input
     @ (if identifier_refine (enrich_defaults input) then [] else [Custom IDENTIFIER_MESSAGE])
     @ (if webhook_refine (enrich_defaults input) then [] else [Custom WEBHOOK_MESSAGE])"

definition enrichPersonInputSchema_parse :: "Formats \<Rightarrow> ApolloEnrichmentRequest \<Rightarrow> error + EnrichPersonInput" where
  "enrichPersonInputSchema_parse fmt input =
     (if enrich_issues fmt input \<noteq> [] then Inl (ZodError (enrich_issues fmt input))
      else Inr (enrich_defaults input))"

text \<open>
  \<open>serverWebhookUrl\<close> is the optional third argument of the executor, the server's
  default callback URL.
\<close>

definition executeEnrichPerson :: "Formats \<Rightarrow> fetch \<Rightarrow> ApolloClient \<Rightarrow> ApolloEnrichmentRequest \<Rightarrow> string option \<Rightarrow> error + EnrichmentResult" where
  "executeEnrichPerson fmt fetch client input serverWebhookUrl =
     (case enrichPersonInputSchema_parse fmt input of
        Inl e \<Rightarrow> Inl e
      | Inr validatedInput \<Rightarrow>
          (let isAsync = (truthy_flag (vi_run_waterfall_email validatedInput)
                          \<or> truthy_flag (vi_run_waterfall_phone validatedInput));
               webhookUrl = js_or (vi_webhook_url validatedInput)
                                  (if isAsync then serverWebhookUrl else None)
           in case enrichPerson fetch client
                     \<lparr> rq_email = vi_email validatedInput,
                       rq_linkedin_url = vi_linkedin_url validatedInput,
                       rq_first_name = vi_first_name validatedInput,
                       rq_last_name = vi_last_name validatedInput,
                       rq_name = vi_name validatedInput,
                       rq_organization_name = vi_organization_name validatedInput,
                       rq_domain = vi_domain validatedInput,
                       rq_reveal_personal_emails = Some (vi_reveal_personal_emails validatedInput),
                       rq_reveal_phone_number = Some (vi_reveal_phone_number validatedInput),
                       rq_run_waterfall_email = vi_run_waterfall_email validatedInput,
                       rq_run_waterfall_phone = vi_run_waterfall_phone validatedInput,
                       rq_webhook_url = webhookUrl \<rparr> of
                Inl e \<Rightarrow> Inl e
              | Inr response \<Rightarrow>
                  Inr \<lparr> er_person = map_option normalizeEnrichedPerson (aer_person response),
                        er_status = aer_status response,
                        er_enrichment_request_id = aer_enrichment_request_id response,
                        er_enrichment_status = aer_enrichment_status response,
                        er_is_async = isAsync,
                        er_webhook_url = (if isAsync then webhookUrl else None) \<rparr>))"

section \<open>Reference definitions and example inputs\<close>

text \<open>
  ``Order of first appearance is preserved, duplicates are dropped'': every element
  once, at the place of its first occurrence. (\<open>remdups\<close> keeps the last
  occurrence, hence the two reversals.)
\<close>

definition first_occurrences :: "'a list \<Rightarrow> 'a list" where
  "first_occurrences xs = rev (remdups (rev xs))"

text \<open>
  The values the normalizer meets, in its order: the single sanitized phone, then the
  sanitized number of each entry of the list; absent and empty values are left out.
\<close>

definition nonempty_sanitized :: "ApolloEnrichedPerson \<Rightarrow> string list" where
  "nonempty_sanitized person =
     filter (\<lambda>s. s \<noteq> [])
       (List.map_filter id
          (ep_sanitized_phone person
           # (case ep_phone_numbers person of None \<Rightarrow> [] | Some phones \<Rightarrow> map sanitized_number phones)))"

text \<open>
  The assembly in the spec's words, which say nothing of empty values: the sanitized
  phone if present, then each entry's sanitized number that is not already in the list.
\<close>

definition claimed_phone_numbers :: "ApolloEnrichedPerson \<Rightarrow> string list" where
  "claimed_phone_numbers person =
     first_occurrences
       (List.map_filter id
          (ep_sanitized_phone person
           # (case ep_phone_numbers person of None \<Rightarrow> [] | Some phones \<Rightarrow> map sanitized_number phones)))"

text \<open>
  Concrete provider objects, caller inputs and network stubs, on which the definitions
  are run below.
\<close>

definition phone_entry :: "string \<Rightarrow> ApolloPhoneNumber" where
  "phone_entry s =
     \<lparr> raw_number = s, sanitized_number = Some s, phone_type = ''mobile'',
       phone_position = 0, phone_status = ''valid_number'' \<rparr>"

definition bare_enriched_person :: ApolloEnrichedPerson where
  "bare_enriched_person =
     \<lparr> ep_id = ''p1'', ep_first_name = None, ep_last_name = None, ep_name = None,
       ep_title = None, ep_headline = None, ep_linkedin_url = None, ep_email = None,
       ep_email_status = None, ep_personal_emails = None, ep_phone_numbers = None,
       ep_sanitized_phone = None, ep_organization_id = None, ep_organization = None,
       ep_photo_url = None, ep_twitter_url = None, ep_github_url = None,
       ep_facebook_url = None, ep_state = None, ep_city = None, ep_country = None,
       ep_employment_history = None \<rparr>"

definition person_with_phones :: "string option \<Rightarrow> string list \<Rightarrow> ApolloEnrichedPerson" where
  "person_with_phones sanitized_phone numbers =
     bare_enriched_person
       \<lparr> ep_sanitized_phone := sanitized_phone,
         ep_phone_numbers := Some (map phone_entry numbers) \<rparr>"

definition blank_phone_entry :: ApolloPhoneNumber where
  "blank_phone_entry =
     \<lparr> raw_number = ''n/a'', sanitized_number = Some [], phone_type = ''other'',
       phone_position = 1, phone_status = ''no_status'' \<rparr>"

definition absent_phone_entry :: ApolloPhoneNumber where
  "absent_phone_entry =
     \<lparr> raw_number = ''555'', sanitized_number = None, phone_type = ''other'',
       phone_position = 2, phone_status = ''no_status'' \<rparr>"

definition person_with_blank_entries :: ApolloEnrichedPerson where
  "person_with_blank_entries =
     bare_enriched_person
       \<lparr> ep_sanitized_phone := Some ''+1-555'',
         ep_phone_numbers := Some [blank_phone_entry, absent_phone_entry] \<rparr>"

definition bare_search_person :: ApolloPersonSearch where
  "bare_search_person =
     \<lparr> sp_id = ''p1'', sp_first_name = None, sp_last_name = None, sp_name = None,
       sp_title = None, sp_headline = None, sp_linkedin_url = None, sp_email_status = None,
       sp_photo_url = None, sp_twitter_url = None, sp_github_url = None,
       sp_facebook_url = None, sp_state = None, sp_city = None, sp_country = None,
       sp_organization_id = None, sp_organization = None, sp_employment_history = None \<rparr>"

definition person_with_org_id_only :: ApolloPersonSearch where
  "person_with_org_id_only = bare_search_person \<lparr> sp_organization_id := Some ''org_1'' \<rparr>"

definition respond_with :: "http_response \<Rightarrow> fetch" where
  "respond_with r request = Response r"

definition unauthorized :: http_response where
  "unauthorized = \<lparr> status = 401, statusText = ''Unauthorized'', json = None \<rparr>"

definition no_fields :: ApolloEnrichmentRequest where
  "no_fields =
     \<lparr> rq_email = None, rq_linkedin_url = None, rq_first_name = None, rq_last_name = None,
       rq_name = None, rq_organization_name = None, rq_domain = None,
       rq_reveal_personal_emails = None, rq_reveal_phone_number = None,
       rq_run_waterfall_email = None, rq_run_waterfall_phone = None, rq_webhook_url = None \<rparr>"

definition full_request :: ApolloEnrichmentRequest where
  "full_request =
     \<lparr> rq_email = Some ''a@b.com'', rq_linkedin_url = Some ''https://linkedin.com/in/ada'',
       rq_first_name = Some ''Ada'', rq_last_name = Some ''Lovelace'',
       rq_name = Some ''Ada Lovelace'', rq_organization_name = Some ''Analytical'',
       rq_domain = Some ''example.com'',
       rq_reveal_personal_emails = Some True, rq_reveal_phone_number = Some True,
       rq_run_waterfall_email = Some True, rq_run_waterfall_phone = Some True,
       rq_webhook_url = Some ''https://hooks.example.com/apollo'' \<rparr>"

definition permissive_formats :: Formats where
  "permissive_formats = \<lparr> is_email = (\<lambda>s. True), is_url = (\<lambda>s. True) \<rparr>"

definition json_of :: "ApolloPersonSearch list option \<Rightarrow> RawPagination option \<Rightarrow> ApiJson" where
  "json_of people pagination =
     \<lparr> j_people = people, j_pagination = pagination, j_person = None, j_status = None,
       j_enrichment_request_id = None, j_enrichment_status = None, j_credits_used = None \<rparr>"

definition ok_response :: "ApiJson \<Rightarrow> http_response" where
  "ok_response j = \<lparr> status = 200, statusText = ''OK'', json = Some j \<rparr>"

definition zero_pagination :: RawPagination where
  "zero_pagination =
     \<lparr> rp_page = Some 0, rp_per_page = Some 0, rp_total_entries = Some 0,
       rp_total_pages = Some 0 \<rparr>"

definition search_input :: "int \<Rightarrow> int \<Rightarrow> SearchParams" where
  "search_input page per_page =
     \<lparr> sq_person_titles = Some [''CEO''], sq_person_locations = None, sq_q_keywords = None,
       sq_page = Some page, sq_per_page = Some per_page \<rparr>"

definition email_only :: ApolloEnrichmentRequest where
  "email_only = no_fields \<lparr> rq_email := Some ''a@b.com'' \<rparr>"

definition email_with_waterfall :: ApolloEnrichmentRequest where
  "email_with_waterfall = no_fields \<lparr> rq_email := Some ''a@b.com'', rq_run_waterfall_phone := Some True \<rparr>"

definition waterfall_without_webhook :: ApolloEnrichmentRequest where
  "waterfall_without_webhook =
     no_fields \<lparr> rq_name := Some ''Ada Lovelace'', rq_domain := Some ''example.com'',
                 rq_run_waterfall_email := Some True \<rparr>"

definition sync_with_webhook :: ApolloEnrichmentRequest where
  "sync_with_webhook =
     no_fields \<lparr> rq_email := Some ''a@b.com'',
                 rq_webhook_url := Some ''https://hooks.example.com/apollo'' \<rparr>"

definition async_with_webhook :: ApolloEnrichmentRequest where
  "async_with_webhook =
     no_fields \<lparr> rq_email := Some ''a@b.com'', rq_run_waterfall_email := Some True,
                 rq_webhook_url := Some ''https://hooks.example.com/apollo'' \<rparr>"

definition no_match_json :: ApiJson where
  "no_match_json =
     \<lparr> j_people = None, j_pagination = None, j_person = None, j_status = Some ''no_match'',
       j_enrichment_request_id = None, j_enrichment_status = None, j_credits_used = None \<rparr>"

section \<open>Search normalization\<close>

text \<open>
  C3. For every search-result person, whatever its fields hold (and whatever further
  keys the provider object carries), the canonical person has a null email, no personal
  emails and no phone numbers.
\<close>

theorem search_person_has_no_contact_data:
  "np_email (normalizeSearchPerson person) = None
   \<and> np_personal_emails (normalizeSearchPerson person) = []
   \<and> np_phone_numbers (normalizeSearchPerson person) = []"
  by (simp add: normalizeSearchPerson_def)

section \<open>Enrichment phone numbers\<close>

lemma first_occurrences_snoc:
  "first_occurrences (xs @ [x]) = (if x \<in> set xs then first_occurrences xs else first_occurrences xs @ [x])"
  by (simp add: first_occurrences_def)

lemma set_first_occurrences: "set (first_occurrences xs) = set xs"
  by (simp add: first_occurrences_def)

text \<open>
  The loop invariant of the phone assembly: after any prefix of the entries, the list
  built so far is the first occurrences of the non-empty values met so far.
\<close>

lemma push_phones_first_occurrences:
  "push_phones phones (first_occurrences pre)
     = first_occurrences (pre @ filter (\<lambda>s. s \<noteq> []) (List.map_filter id (map sanitized_number phones)))"
proof (induction phones arbitrary: pre)
  case Nil
  then show ?case by (simp add: List.map_filter_simps)
next
  case (Cons phone rest)
  show ?case
  proof (cases "sanitized_number phone")
    case None
    then show ?thesis using Cons.IH [of pre] by (simp add: List.map_filter_simps)
  next
    case (Some s)
    show ?thesis
    proof (cases "s = []")
      case True
      then show ?thesis using Some Cons.IH [of pre] by (simp add: List.map_filter_simps)
    next
      case False
      have "push_phones (phone # rest) (first_occurrences pre)
              = push_phones rest (first_occurrences (pre @ [s]))"
        using Some False by (simp add: first_occurrences_snoc set_first_occurrences)
      then show ?thesis using Some False Cons.IH [of "pre @ [s]"]
        by (simp add: List.map_filter_simps)
    qed
  qed
qed

lemma enriched_phone_numbers_eq:
  "enriched_phone_numbers person = first_occurrences (nonempty_sanitized person)"
proof -
  let ?init = "(case ep_sanitized_phone person of None \<Rightarrow> [] | Some s \<Rightarrow> if s \<noteq> [] then [s] else [])"
  have init: "?init = first_occurrences ?init"
    by (simp add: first_occurrences_def split: option.splits)
  show ?thesis
  proof (cases "ep_phone_numbers person")
    case None
    then show ?thesis
      by (simp add: enriched_phone_numbers_def nonempty_sanitized_def first_occurrences_def
            List.map_filter_simps split: option.splits)
  next
    case (Some phones)
    have "enriched_phone_numbers person = push_phones phones (first_occurrences ?init)"
      using Some init by (simp add: enriched_phone_numbers_def)
    also have "\<dots> = first_occurrences (?init @ filter (\<lambda>s. s \<noteq> []) (List.map_filter id (map sanitized_number phones)))"
      by (rule push_phones_first_occurrences)
    also have "?init @ filter (\<lambda>s. s \<noteq> []) (List.map_filter id (map sanitized_number phones)) = nonempty_sanitized person"
      using Some by (simp add: nonempty_sanitized_def List.map_filter_simps split: option.splits)
    finally show ?thesis .
  qed
qed

text \<open>
  C2, amended. For every enrichment-result person the normalized phone numbers are the
  non-empty sanitized values (the single sanitized phone first, then the sanitized
  number of each entry), each kept once at its first occurrence. The list has no
  duplicates, and non-empty, pairwise different values A, B, C arriving as [A, B, A, C]
  yield [A, B, C].
\<close>

theorem enriched_phones_first_occurrences:
  "np_phone_numbers (normalizeEnrichedPerson person) = first_occurrences (nonempty_sanitized person)
   \<and> distinct (np_phone_numbers (normalizeEnrichedPerson person))
   \<and> (A \<noteq> [] \<and> B \<noteq> [] \<and> C \<noteq> [] \<and> distinct [A, B, C]
        \<longrightarrow> np_phone_numbers (normalizeEnrichedPerson (person_with_phones None [A, B, A, C]))
              = [A, B, C])"
proof -
  have eq: "\<And>p. np_phone_numbers (normalizeEnrichedPerson p) = first_occurrences (nonempty_sanitized p)"
    by (simp add: normalizeEnrichedPerson_def enriched_phone_numbers_eq)
  have d: "distinct (first_occurrences (nonempty_sanitized person))"
    by (simp add: first_occurrences_def)
  have ex: "A \<noteq> [] \<and> B \<noteq> [] \<and> C \<noteq> [] \<and> distinct [A, B, C]
        \<longrightarrow> first_occurrences (nonempty_sanitized (person_with_phones None [A, B, A, C])) = [A, B, C]"
    by (auto simp add: nonempty_sanitized_def person_with_phones_def bare_enriched_person_def
          phone_entry_def first_occurrences_def List.map_filter_simps)
  show ?thesis using eq d ex by simp
qed

theorem enriched_phones_first_occurrences_witness:
  "''+1-555'' \<noteq> [] \<and> ''+1-777'' \<noteq> [] \<and> ''+1-999'' \<noteq> []
   \<and> distinct [''+1-555'', ''+1-777'', ''+1-999'']
   \<and> np_phone_numbers (normalizeEnrichedPerson
        (person_with_phones None [''+1-555'', ''+1-777'', ''+1-555'', ''+1-999'']))
      = [''+1-555'', ''+1-777'', ''+1-999'']"
  using enriched_phones_first_occurrences [of bare_enriched_person "''+1-555''" "''+1-777''" "''+1-999''"]
  by simp

text \<open>
  C2 as stated fails when a sanitized number is the empty string: for the values
  ['', +1-555, '', +1-999] the spec's wording gives ['', +1-555, +1-999], while the
  normalizer, whose guard \<^verbatim>\<open>phone.sanitized_number &&\<close> skips the empty string,
  gives [+1-555, +1-999].
\<close>

theorem empty_sanitized_number_not_appended:
  "np_phone_numbers (normalizeEnrichedPerson (person_with_phones None [[], ''+1-555'', [], ''+1-999'']))
     = [''+1-555'', ''+1-999'']
   \<and> claimed_phone_numbers (person_with_phones None [[], ''+1-555'', [], ''+1-999''])
     = [[], ''+1-555'', ''+1-999'']"
  by (simp add: normalizeEnrichedPerson_def enriched_phone_numbers_def person_with_phones_def
        bare_enriched_person_def phone_entry_def claimed_phone_numbers_def first_occurrences_def
        List.map_filter_simps)

lemma push_phones_no_empty: "[] \<notin> set acc \<Longrightarrow> [] \<notin> set (push_phones phones acc)"
proof (induction phones arbitrary: acc)
  case Nil
  then show ?case by simp
next
  case (Cons phone rest)
  show ?case
  proof (cases "sanitized_number phone")
    case None
    then show ?thesis using Cons.IH [OF Cons.prems] by simp
  next
    case (Some s)
    have "[] \<notin> set (if s \<noteq> [] \<and> s \<notin> set acc then acc @ [s] else acc)"
      using Cons.prems by (cases "s = []") simp_all
    then show ?thesis using Some Cons.IH by simp
  qed
qed

lemma push_phones_filter_truthy:
  "push_phones (filter (\<lambda>ph. truthy (sanitized_number ph)) phones) acc = push_phones phones acc"
  by (induction phones arbitrary: acc) (auto simp: truthy_def split: option.splits)

text \<open>
  C10. For every enrichment-result person the normalized phone numbers never contain the
  empty string; entries whose sanitized number is absent or empty contribute nothing
  (dropping them from the provider's list changes nothing, and a list made of such
  entries only is as good as no list); and a null \<^verbatim>\<open>personal_emails\<close> normalizes to
  the empty list.
\<close>

theorem enriched_phones_exclude_blank:
  "[] \<notin> set (np_phone_numbers (normalizeEnrichedPerson person))
   \<and> np_phone_numbers (normalizeEnrichedPerson
        (person\<lparr> ep_phone_numbers :=
                   map_option (filter (\<lambda>ph. truthy (sanitized_number ph))) (ep_phone_numbers person) \<rparr>))
      = np_phone_numbers (normalizeEnrichedPerson person)
   \<and> (ep_phone_numbers person = Some phones \<and> (\<forall>ph \<in> set phones. \<not> truthy (sanitized_number ph))
        \<longrightarrow> np_phone_numbers (normalizeEnrichedPerson person)
              = np_phone_numbers (normalizeEnrichedPerson (person\<lparr> ep_phone_numbers := None \<rparr>)))
   \<and> (ep_personal_emails person = None \<longrightarrow> np_personal_emails (normalizeEnrichedPerson person) = [])"
proof -
  have a: "[] \<notin> set (np_phone_numbers (normalizeEnrichedPerson person))"
  proof -
    let ?init = "(case ep_sanitized_phone person of None \<Rightarrow> []
                  | Some s \<Rightarrow> if s \<noteq> [] then [s] else [])"
    have i: "[] \<notin> set ?init" by (simp split: option.splits)
    have "[] \<notin> set (enriched_phone_numbers person)"
      using i push_phones_no_empty [OF i]
      by (simp add: enriched_phone_numbers_def Let_def split: option.splits)
    then show ?thesis by (simp add: normalizeEnrichedPerson_def)
  qed
  have b: "np_phone_numbers (normalizeEnrichedPerson
        (person\<lparr> ep_phone_numbers :=
                   map_option (filter (\<lambda>ph. truthy (sanitized_number ph))) (ep_phone_numbers person) \<rparr>))
      = np_phone_numbers (normalizeEnrichedPerson person)"
    by (simp add: normalizeEnrichedPerson_def enriched_phone_numbers_def push_phones_filter_truthy
          split: option.splits)
  have c: "ep_phone_numbers person = Some phones \<and> (\<forall>ph \<in> set phones. \<not> truthy (sanitized_number ph))
        \<longrightarrow> np_phone_numbers (normalizeEnrichedPerson person)
              = np_phone_numbers (normalizeEnrichedPerson (person\<lparr> ep_phone_numbers := None \<rparr>))"
  proof
    assume h: "ep_phone_numbers person = Some phones \<and> (\<forall>ph \<in> set phones. \<not> truthy (sanitized_number ph))"
    then have "filter (\<lambda>ph. truthy (sanitized_number ph)) phones = []" by simp
    then have "push_phones phones acc = acc" for acc
      using push_phones_filter_truthy [of phones acc] by simp
    then show "np_phone_numbers (normalizeEnrichedPerson person)
              = np_phone_numbers (normalizeEnrichedPerson (person\<lparr> ep_phone_numbers := None \<rparr>))"
      using h by (simp add: normalizeEnrichedPerson_def enriched_phone_numbers_def)
  qed
  have d: "ep_personal_emails person = None \<longrightarrow> np_personal_emails (normalizeEnrichedPerson person) = []"
    by (simp add: normalizeEnrichedPerson_def)
  show ?thesis using a b c d by blast
qed

theorem enriched_phones_exclude_blank_witness:
  "ep_phone_numbers person_with_blank_entries = Some [blank_phone_entry, absent_phone_entry]
   \<and> \<not> truthy (sanitized_number blank_phone_entry)
   \<and> \<not> truthy (sanitized_number absent_phone_entry)
   \<and> ep_personal_emails person_with_blank_entries = None
   \<and> np_phone_numbers (normalizeEnrichedPerson person_with_blank_entries) = [''+1-555'']
   \<and> np_personal_emails (normalizeEnrichedPerson person_with_blank_entries) = []"
  using enriched_phones_exclude_blank
          [of person_with_blank_entries "[blank_phone_entry, absent_phone_entry]"]
  by (simp add: person_with_blank_entries_def bare_enriched_person_def blank_phone_entry_def
        absent_phone_entry_def truthy_def normalizeEnrichedPerson_def enriched_phone_numbers_def)

section \<open>Company and social sub-records\<close>

text \<open>
  C9, amended. Both normalizers always build the company and social sub-records (they
  are plain fields of the canonical person, never optional). When the nested
  organization object is missing, every company field projected from it (name, domain,
  website, linkedin_url, industry, employee_count) is null, and the company id is the
  person's own \<^verbatim>\<open>organization_id\<close>. The social sub-record carries the person's three
  links.
\<close>

theorem company_and_social_projection:
  "(sp_organization sp = None \<longrightarrow>
      np_company (normalizeSearchPerson sp)
        = \<lparr> co_id = sp_organization_id sp, co_name = None, co_domain = None, co_website = None,
            co_linkedin_url = None, co_industry = None, co_employee_count = None \<rparr>)
   \<and> (ep_organization ep = None \<longrightarrow>
      np_company (normalizeEnrichedPerson ep)
        = \<lparr> co_id = ep_organization_id ep, co_name = None, co_domain = None, co_website = None,
            co_linkedin_url = None, co_industry = None, co_employee_count = None \<rparr>)
   \<and> np_social (normalizeSearchPerson sp)
        = \<lparr> soc_twitter_url = sp_twitter_url sp, soc_github_url = sp_github_url sp,
            soc_facebook_url = sp_facebook_url sp \<rparr>
   \<and> np_social (normalizeEnrichedPerson ep)
        = \<lparr> soc_twitter_url = ep_twitter_url ep, soc_github_url = ep_github_url ep,
            soc_facebook_url = ep_facebook_url ep \<rparr>"
  by (simp add: normalizeSearchPerson_def normalizeEnrichedPerson_def company_of_def
        org_field_def org_field_num_def or_null_def or_null_num_def js_or_def truthy_def
        truthy_num_def)

theorem company_and_social_projection_witness:
  "sp_organization person_with_org_id_only = None
   \<and> ep_organization bare_enriched_person = None
   \<and> np_company (normalizeSearchPerson person_with_org_id_only)
        = \<lparr> co_id = Some ''org_1'', co_name = None, co_domain = None, co_website = None,
            co_linkedin_url = None, co_industry = None, co_employee_count = None \<rparr>
   \<and> np_company (normalizeEnrichedPerson bare_enriched_person)
        = \<lparr> co_id = None, co_name = None, co_domain = None, co_website = None,
            co_linkedin_url = None, co_industry = None, co_employee_count = None \<rparr>"
  using company_and_social_projection [of person_with_org_id_only bare_enriched_person]
  by (simp add: person_with_org_id_only_def bare_search_person_def bare_enriched_person_def)

text \<open>
  C9 as stated fails for the company id: it is read from the person's
  \<^verbatim>\<open>organization_id\<close>, not from the nested object, so a person with an organization
  id and no organization object gets a company whose id is not null.
\<close>

theorem company_id_survives_missing_organization:
  "sp_organization person_with_org_id_only = None
   \<and> co_id (np_company (normalizeSearchPerson person_with_org_id_only)) = Some ''org_1''"
  by (simp add: person_with_org_id_only_def bare_search_person_def normalizeSearchPerson_def
        company_of_def)

section \<open>Provider errors\<close>

text \<open>
  C6. On a response whose status is outside 200-299, \<^verbatim>\<open>makeRequest\<close> raises an error
  whose message is the fixed prefix, the status code and the status text, and nothing
  else. Two calls with any API keys, URLs and bodies that receive the same status code
  and status text raise the same error. (The response text that the code reads into
  \<^verbatim>\<open>errorText\<close> is never used.)
\<close>

theorem provider_error_only_status:
  assumes "fetch_a (request_of client_a url_a body_a) = Response r_a"
    and "fetch_b (request_of client_b url_b body_b) = Response r_b"
    and "\<not> ok r_a"
    and "status r_b = status r_a"
    and "statusText r_b = statusText r_a"
  shows "makeRequest fetch_a client_a url_a body_a
           = Inl (Error (''Apollo API error: '' @ show_nat (status r_a) @ '' '' @ statusText r_a))
         \<and> makeRequest fetch_b client_b url_b body_b = makeRequest fetch_a client_a url_a body_a"
proof -
  have "\<not> ok r_b" using assms(3,4) by (simp add: ok_def)
  then show ?thesis using assms by (simp add: makeRequest_def)
qed

lemma show_nat_401: "show_nat 401 = ''401''"
proof -
  have "show_nat 4 = ''4''" by (subst show_nat.simps) (simp add: digit_char_def)
  then have "show_nat 40 = ''40''" by (subst show_nat.simps) (simp add: digit_char_def)
  then show ?thesis by (subst show_nat.simps) (simp add: digit_char_def)
qed

theorem provider_error_only_status_witness:
  "respond_with unauthorized
       (request_of \<lparr> apiKey = ''key-one'' \<rparr> SEARCH_ENDPOINT [(''page'', BNum 1)])
     = Response unauthorized
   \<and> respond_with unauthorized
       (request_of \<lparr> apiKey = ''key-two'' \<rparr> ENRICHMENT_ENDPOINT (enrich_body full_request))
     = Response unauthorized
   \<and> \<not> ok unauthorized
   \<and> makeRequest (respond_with unauthorized) \<lparr> apiKey = ''key-one'' \<rparr> SEARCH_ENDPOINT
        [(''page'', BNum 1)]
     = Inl (Error ''Apollo API error: 401 Unauthorized'')
   \<and> makeRequest (respond_with unauthorized) \<lparr> apiKey = ''key-two'' \<rparr> ENRICHMENT_ENDPOINT
        (enrich_body full_request)
     = Inl (Error ''Apollo API error: 401 Unauthorized'')"
proof -
  have r: "\<And>q. respond_with unauthorized q = Response unauthorized"
    by (simp add: respond_with_def)
  have n: "\<not> ok unauthorized" by (simp add: ok_def unauthorized_def)
  have s: "status unauthorized = 401" "statusText unauthorized = ''Unauthorized''"
    by (simp_all add: unauthorized_def)
  have "makeRequest (respond_with unauthorized) \<lparr> apiKey = ''key-one'' \<rparr> SEARCH_ENDPOINT
          [(''page'', BNum 1)]
        = Inl (Error (''Apollo API error: '' @ show_nat (status unauthorized) @ '' ''
                      @ statusText unauthorized))
      \<and> makeRequest (respond_with unauthorized) \<lparr> apiKey = ''key-two'' \<rparr> ENRICHMENT_ENDPOINT
          (enrich_body full_request)
        = makeRequest (respond_with unauthorized) \<lparr> apiKey = ''key-one'' \<rparr> SEARCH_ENDPOINT
          [(''page'', BNum 1)]"
    by (rule provider_error_only_status [OF r r n refl refl])
  then show ?thesis using r n by (simp add: s show_nat_401)
qed

section \<open>The enrichment request body\<close>

lemma map_of_str_entry:
  "map_of (str_entry k' x) k = (if k = k' \<and> truthy x then map_option BStr x else None)"
  by (cases x) (simp_all add: str_entry_def truthy_def)

lemma map_of_flag_entry:
  "map_of (flag_entry k' x) k = (if k = k' \<and> truthy_flag x then Some (BBool True) else None)"
  by (simp add: flag_entry_def)

lemma in_str_entry:
  "(k, v) \<in> set (str_entry k' x) \<longleftrightarrow> k = k' \<and> (\<exists>s. x = Some s \<and> s \<noteq> [] \<and> v = BStr s)"
  by (cases x) (auto simp add: str_entry_def)

lemma in_flag_entry:
  "(k, v) \<in> set (flag_entry k' x) \<longleftrightarrow> k = k' \<and> truthy_flag x \<and> v = BBool True"
  by (auto simp add: flag_entry_def)

text \<open>
  C8. The body built by \<^verbatim>\<open>enrichPerson\<close> holds an identifier key exactly when that
  field was supplied with a non-empty value, and then with that value; it holds a reveal
  or waterfall key exactly when the flag is \<^verbatim>\<open>true\<close>, and then with the value
  \<^verbatim>\<open>true\<close>. No key of the body ever has the value \<^verbatim>\<open>false\<close>: absent and false
  flags are omitted.
\<close>

theorem enrich_body_only_supplied_and_truthy:
  "map_of (enrich_body params) ''email''
     = (if truthy (rq_email params) then map_option BStr (rq_email params) else None)
   \<and> map_of (enrich_body params) ''linkedin_url''
     = (if truthy (rq_linkedin_url params) then map_option BStr (rq_linkedin_url params) else None)
   \<and> map_of (enrich_body params) ''first_name''
     = (if truthy (rq_first_name params) then map_option BStr (rq_first_name params) else None)
   \<and> map_of (enrich_body params) ''last_name''
     = (if truthy (rq_last_name params) then map_option BStr (rq_last_name params) else None)
   \<and> map_of (enrich_body params) ''name''
     = (if truthy (rq_name params) then map_option BStr (rq_name params) else None)
   \<and> map_of (enrich_body params) ''organization_name''
     = (if truthy (rq_organization_name params)
        then map_option BStr (rq_organization_name params) else None)
   \<and> map_of (enrich_body params) ''domain''
     = (if truthy (rq_domain params) then map_option BStr (rq_domain params) else None)
   \<and> map_of (enrich_body params) ''reveal_personal_emails''
     = (if rq_reveal_personal_emails params = Some True then Some (BBool True) else None)
   \<and> map_of (enrich_body params) ''reveal_phone_number''
     = (if rq_reveal_phone_number params = Some True then Some (BBool True) else None)
   \<and> map_of (enrich_body params) ''run_waterfall_email''
     = (if rq_run_waterfall_email params = Some True then Some (BBool True) else None)
   \<and> map_of (enrich_body params) ''run_waterfall_phone''
     = (if rq_run_waterfall_phone params = Some True then Some (BBool True) else None)
   \<and> (k, BBool False) \<notin> set (enrich_body params)"
proof -
  have flag: "\<And>x. truthy_flag x = (x = Some True)"
    by (simp add: truthy_flag_def split: option.splits)
  note ev = enrich_body_def map_add_def map_of_str_entry map_of_flag_entry flag
  have "map_of (enrich_body params) ''email''
     = (if truthy (rq_email params) then map_option BStr (rq_email params) else None)"
    by (simp add: ev truthy_def split: option.splits)
  moreover have "map_of (enrich_body params) ''linkedin_url''
     = (if truthy (rq_linkedin_url params) then map_option BStr (rq_linkedin_url params) else None)"
    by (simp add: ev truthy_def split: option.splits)
  moreover have "map_of (enrich_body params) ''first_name''
     = (if truthy (rq_first_name params) then map_option BStr (rq_first_name params) else None)"
    by (simp add: ev truthy_def split: option.splits)
  moreover have "map_of (enrich_body params) ''last_name''
     = (if truthy (rq_last_name params) then map_option BStr (rq_last_name params) else None)"
    by (simp add: ev truthy_def split: option.splits)
  moreover have "map_of (enrich_body params) ''name''
     = (if truthy (rq_name params) then map_option BStr (rq_name params) else None)"
    by (simp add: ev truthy_def split: option.splits)
  moreover have "map_of (enrich_body params) ''organization_name''
     = (if truthy (rq_organization_name params)
        then map_option BStr (rq_organization_name params) else None)"
    by (simp add: ev truthy_def split: option.splits)
  moreover have "map_of (enrich_body params) ''domain''
     = (if truthy (rq_domain params) then map_option BStr (rq_domain params) else None)"
    by (simp add: ev truthy_def split: option.splits)
  moreover have "map_of (enrich_body params) ''reveal_personal_emails''
     = (if rq_reveal_personal_emails params = Some True then Some (BBool True) else None)"
    by (simp add: ev truthy_def split: option.splits)
  moreover have "map_of (enrich_body params) ''reveal_phone_number''
     = (if rq_reveal_phone_number params = Some True then Some (BBool True) else None)"
    by (simp add: ev truthy_def split: option.splits)
  moreover have "map_of (enrich_body params) ''run_waterfall_email''
     = (if rq_run_waterfall_email params = Some True then Some (BBool True) else None)"
    by (simp add: ev truthy_def split: option.splits)
  moreover have "map_of (enrich_body params) ''run_waterfall_phone''
     = (if rq_run_waterfall_phone params = Some True then Some (BBool True) else None)"
    by (simp add: ev truthy_def split: option.splits)
  moreover have "(k, BBool False) \<notin> set (enrich_body params)"
    by (simp add: enrich_body_def in_str_entry in_flag_entry)
  ultimately show ?thesis by (intro conjI)
qed

section \<open>Search pagination\<close>

lemma check_field_empty:
  "check_field k valid v = [] \<longleftrightarrow> (case v of None \<Rightarrow> True | Some x \<Rightarrow> valid x)"
  by (simp add: check_field_def split: option.splits)

lemma parsed_search_page_bounds:
  assumes "searchPeopleInputSchema_parse input = Inr v"
  shows "1 \<le> si_page v \<and> si_page v \<le> 100 \<and> 1 \<le> si_per_page v \<and> si_per_page v \<le> 100"
proof -
  have none: "search_issues input = []"
    using assms by (simp add: searchPeopleInputSchema_parse_def split: if_splits)
  have v: "si_page v = (case sq_page input of None \<Rightarrow> 1 | Some n \<Rightarrow> n)"
          "si_per_page v = (case sq_per_page input of None \<Rightarrow> 25 | Some n \<Rightarrow> n)"
    using assms by (auto simp add: searchPeopleInputSchema_parse_def split: if_splits)
  have "check_field ''page'' (\<lambda>n. 1 \<le> n \<and> n \<le> 100) (sq_page input) = []"
       "check_field ''per_page'' (\<lambda>n. 1 \<le> n \<and> n \<le> 100) (sq_per_page input) = []"
    using none by (simp_all add: search_issues_def)
  then show ?thesis using v by (simp add: check_field_empty split: option.splits)
qed

text \<open>
  C7, amended. For every valid search input whose request is answered with a 2xx
  response carrying JSON, the search succeeds, also when the pagination block is
  missing. The output page and per_page are the upstream values when the provider
  supplies them as non-zero numbers, and otherwise the request's own page and per_page;
  when the provider omits the pagination block the output pagination is exactly the
  request's page and per_page with zero total_entries and total_pages.
\<close>

theorem search_pagination_defaults:
  assumes "searchPeopleInputSchema_parse input = Inr v"
    and "fetch (request_of client SEARCH_ENDPOINT (search_body (search_params_of v))) = Response r"
    and "ok r"
    and "json r = Some j"
  shows "\<exists>out. executeSearchPeople fetch client input = Inr out
           \<and> pg_page (sr_pagination out)
               = num_or (pagination_field (j_pagination j) rp_page) (si_page v)
           \<and> pg_per_page (sr_pagination out)
               = num_or (pagination_field (j_pagination j) rp_per_page) (si_per_page v)
           \<and> (\<forall>p. pagination_field (j_pagination j) rp_page = Some p \<and> p \<noteq> 0
                  \<longrightarrow> pg_page (sr_pagination out) = p)
           \<and> (\<forall>p. pagination_field (j_pagination j) rp_per_page = Some p \<and> p \<noteq> 0
                  \<longrightarrow> pg_per_page (sr_pagination out) = p)
           \<and> (j_pagination j = None
                  \<longrightarrow> sr_pagination out
                        = \<lparr> pg_page = si_page v, pg_per_page = si_per_page v,
                            pg_total_entries = 0, pg_total_pages = 0 \<rparr>)"
proof -
  have b: "si_page v \<noteq> 0" "si_per_page v \<noteq> 0"
    using parsed_search_page_bounds [OF assms(1)] by auto
  have req: "num_or (sq_page (search_params_of v)) 1 = si_page v"
            "num_or (sq_per_page (search_params_of v)) 25 = si_per_page v"
    using b by (simp_all add: search_params_of_def num_or_def)
  have mk: "makeRequest fetch client SEARCH_ENDPOINT (search_body (search_params_of v)) = Inr j"
    using assms(2-4) by (simp add: makeRequest_def)
  let ?pag = "\<lparr> pg_page = num_or (pagination_field (j_pagination j) rp_page) (si_page v),
                pg_per_page = num_or (pagination_field (j_pagination j) rp_per_page) (si_per_page v),
                pg_total_entries = num_or (pagination_field (j_pagination j) rp_total_entries) 0,
                pg_total_pages = num_or (pagination_field (j_pagination j) rp_total_pages) 0 \<rparr>"
  let ?out = "\<lparr> sr_people = map normalizeSearchPerson (case j_people j of None \<Rightarrow> [] | Some ps \<Rightarrow> ps),
                sr_pagination = ?pag \<rparr>"
  have run: "executeSearchPeople fetch client input = Inr ?out"
    using assms(1) mk req by (simp add: executeSearchPeople_def searchPeople_def)
  have p1: "\<forall>p. pagination_field (j_pagination j) rp_page = Some p \<and> p \<noteq> 0
              \<longrightarrow> pg_page (sr_pagination ?out) = p"
    by (simp add: num_or_def)
  have p2: "\<forall>p. pagination_field (j_pagination j) rp_per_page = Some p \<and> p \<noteq> 0
              \<longrightarrow> pg_per_page (sr_pagination ?out) = p"
    by (simp add: num_or_def)
  have p3: "j_pagination j = None
              \<longrightarrow> sr_pagination ?out
                    = \<lparr> pg_page = si_page v, pg_per_page = si_per_page v,
                        pg_total_entries = 0, pg_total_pages = 0 \<rparr>"
    by (simp add: num_or_def pagination_field_def)
  show ?thesis
    using run p1 p2 p3 by (intro exI [of _ ?out]) simp
qed

lemma search_input_parses:
  "1 \<le> page \<Longrightarrow> page \<le> 100 \<Longrightarrow> 1 \<le> per_page \<Longrightarrow> per_page \<le> 100 \<Longrightarrow>
   searchPeopleInputSchema_parse (search_input page per_page)
     = Inr \<lparr> si_person_titles = [''CEO''], si_person_locations = None, si_q_keywords = None,
             si_page = page, si_per_page = per_page \<rparr>"
  by (simp add: searchPeopleInputSchema_parse_def search_issues_def search_input_def
        check_field_def required_field_def)

theorem search_pagination_defaults_witness:
  "searchPeopleInputSchema_parse (search_input 1 2)
     = Inr \<lparr> si_person_titles = [''CEO''], si_person_locations = None, si_q_keywords = None,
             si_page = 1, si_per_page = 2 \<rparr>
   \<and> ok (ok_response (json_of (Some [bare_search_person, bare_search_person]) None))
   \<and> j_pagination (json_of (Some [bare_search_person, bare_search_person]) None) = None
   \<and> map_sum id sr_pagination
        (executeSearchPeople
           (respond_with (ok_response (json_of (Some [bare_search_person, bare_search_person]) None)))
           \<lparr> apiKey = ''key-one'' \<rparr> (search_input 1 2))
      = Inr \<lparr> pg_page = 1, pg_per_page = 2, pg_total_entries = 0, pg_total_pages = 0 \<rparr>"
proof -
  let ?j = "json_of (Some [bare_search_person, bare_search_person]) None"
  let ?v = "\<lparr> si_person_titles = [''CEO''], si_person_locations = None, si_q_keywords = None,
              si_page = 1, si_per_page = 2 \<rparr>"
  have h1: "searchPeopleInputSchema_parse (search_input 1 2) = Inr ?v"
    by (rule search_input_parses) simp_all
  have h2: "respond_with (ok_response ?j)
              (request_of \<lparr> apiKey = ''key-one'' \<rparr> SEARCH_ENDPOINT (search_body (search_params_of ?v)))
            = Response (ok_response ?j)"
    by (simp add: respond_with_def)
  have h3: "ok (ok_response ?j)" by (simp add: ok_def ok_response_def)
  have h4: "json (ok_response ?j) = Some ?j" by (simp add: ok_response_def)
  have h5: "j_pagination ?j = None" by (simp add: json_of_def)
  obtain out where
    "executeSearchPeople (respond_with (ok_response ?j)) \<lparr> apiKey = ''key-one'' \<rparr> (search_input 1 2)
       = Inr out"
    and "j_pagination ?j = None
           \<longrightarrow> sr_pagination out
                 = \<lparr> pg_page = si_page ?v, pg_per_page = si_per_page ?v,
                     pg_total_entries = 0, pg_total_pages = 0 \<rparr>"
    using search_pagination_defaults
            [where fetch = "respond_with (ok_response ?j)" and client = "\<lparr> apiKey = ''key-one'' \<rparr>",
             OF h1 h2 h3 h4]
    by (elim exE conjE) (rule that)
  then show ?thesis using h1 h3 h5 by simp
qed

text \<open>
  C7 as stated fails when the provider supplies zero: \<^verbatim>\<open>||\<close> treats an upstream
  page or per_page of 0 as missing, so the output carries the request's page 3 and
  per_page 10 although the provider supplied 0 for both.
\<close>

theorem upstream_zero_page_is_replaced:
  "pagination_field (j_pagination (json_of (Some []) (Some zero_pagination))) rp_page = Some 0
   \<and> pagination_field (j_pagination (json_of (Some []) (Some zero_pagination))) rp_per_page = Some 0
   \<and> executeSearchPeople (respond_with (ok_response (json_of (Some []) (Some zero_pagination))))
        \<lparr> apiKey = ''key-one'' \<rparr> (search_input 3 10)
      = Inr \<lparr> sr_people = [],
              sr_pagination = \<lparr> pg_page = 3, pg_per_page = 10, pg_total_entries = 0,
                                 pg_total_pages = 0 \<rparr> \<rparr>"
proof -
  have h1: "searchPeopleInputSchema_parse (search_input 3 10)
     = Inr \<lparr> si_person_titles = [''CEO''], si_person_locations = None, si_q_keywords = None,
             si_page = 3, si_per_page = 10 \<rparr>"
    by (rule search_input_parses) simp_all
  show ?thesis
    by (simp add: h1 executeSearchPeople_def searchPeople_def makeRequest_def respond_with_def
          ok_response_def ok_def json_of_def zero_pagination_def pagination_field_def num_or_def
          search_params_of_def)
qed

section \<open>The enrich executor and its validation\<close>

lemma parsed_enrich_input:
  "enrichPersonInputSchema_parse fmt input = Inr v \<Longrightarrow> v = enrich_defaults input"
  by (simp add: enrichPersonInputSchema_parse_def split: if_splits)

text \<open>
  C5. In every outcome the enrich executor returns, \<^verbatim>\<open>is_async\<close> says whether a
  waterfall flag was true, a \<^verbatim>\<open>webhook_url\<close> is present only when the call is
  asynchronous, and the outcome of a synchronous call has none, whatever the caller
  supplied.
\<close>

theorem webhook_echoed_only_when_async:
  assumes "executeEnrichPerson fmt fetch client input serverWebhookUrl = Inr out"
  shows "er_is_async out
           = (truthy_flag (rq_run_waterfall_email input) \<or> truthy_flag (rq_run_waterfall_phone input))
         \<and> (er_webhook_url out \<noteq> None \<longrightarrow> er_is_async out)
         \<and> (\<not> er_is_async out \<longrightarrow> er_webhook_url out = None)"
proof (cases "enrichPersonInputSchema_parse fmt input")
  case (Inl e)
  then show ?thesis using assms by (simp add: executeEnrichPerson_def)
next
  case (Inr v)
  then have v: "v = enrich_defaults input" by (rule parsed_enrich_input)
  let ?async = "truthy_flag (rq_run_waterfall_email input) \<or> truthy_flag (rq_run_waterfall_phone input)"
  have "er_is_async out = ?async \<and> er_webhook_url out
          = (if ?async then js_or (rq_webhook_url input) (if ?async then serverWebhookUrl else None)
             else None)"
    using assms Inr unfolding v executeEnrichPerson_def Let_def
    by (auto simp add: enrich_defaults_def split: sum.splits)
  then show ?thesis by simp
qed

theorem webhook_echoed_only_when_async_witness:
  "executeEnrichPerson permissive_formats (respond_with (ok_response no_match_json))
       \<lparr> apiKey = ''key-one'' \<rparr> sync_with_webhook (Some ''https://server.example.com/default'')
     = Inr \<lparr> er_person = None, er_status = ''no_match'', er_enrichment_request_id = None,
             er_enrichment_status = None, er_is_async = False, er_webhook_url = None \<rparr>
   \<and> rq_webhook_url sync_with_webhook = Some ''https://hooks.example.com/apollo''
   \<and> executeEnrichPerson permissive_formats (respond_with (ok_response no_match_json))
       \<lparr> apiKey = ''key-one'' \<rparr> async_with_webhook None
     = Inr \<lparr> er_person = None, er_status = ''no_match'', er_enrichment_request_id = None,
             er_enrichment_status = None, er_is_async = True,
             er_webhook_url = Some ''https://hooks.example.com/apollo'' \<rparr>"
proof -
  have s: "executeEnrichPerson permissive_formats (respond_with (ok_response no_match_json))
       \<lparr> apiKey = ''key-one'' \<rparr> sync_with_webhook (Some ''https://server.example.com/default'')
     = Inr \<lparr> er_person = None, er_status = ''no_match'', er_enrichment_request_id = None,
             er_enrichment_status = None, er_is_async = False, er_webhook_url = None \<rparr>"
    by (simp add: executeEnrichPerson_def enrichPersonInputSchema_parse_def enrich_issues_def
          enrich_field_issues_def check_field_def permissive_formats_def enrich_defaults_def
          identifier_refine_def webhook_refine_def truthy_def truthy_flag_def js_or_def
          sync_with_webhook_def no_fields_def enrichPerson_def makeRequest_def respond_with_def
          ok_response_def ok_def no_match_json_def str_or_def)
  have a: "executeEnrichPerson permissive_formats (respond_with (ok_response no_match_json))
       \<lparr> apiKey = ''key-one'' \<rparr> async_with_webhook None
     = Inr \<lparr> er_person = None, er_status = ''no_match'', er_enrichment_request_id = None,
             er_enrichment_status = None, er_is_async = True,
             er_webhook_url = Some ''https://hooks.example.com/apollo'' \<rparr>"
    by (simp add: executeEnrichPerson_def enrichPersonInputSchema_parse_def enrich_issues_def
          enrich_field_issues_def check_field_def permissive_formats_def enrich_defaults_def
          identifier_refine_def webhook_refine_def truthy_def truthy_flag_def js_or_def
          async_with_webhook_def no_fields_def enrichPerson_def makeRequest_def respond_with_def
          ok_response_def ok_def no_match_json_def str_or_def)
  show ?thesis
    using webhook_echoed_only_when_async [OF s] webhook_echoed_only_when_async [OF a] s a
    by (simp add: sync_with_webhook_def no_fields_def)
qed

text \<open>
  C4, amended. Enrichment input validation accepts an input only if it contains an
  email, a profile URL, first and last name with an organization name or domain, or a
  full name with an organization name or domain. It accepts exactly when such a
  combination is present with non-empty values, every supplied field passes its own
  check, and a waterfall flag comes with a non-empty \<^verbatim>\<open>webhook_url\<close>. It rejects
  the empty object, and accepts \<^verbatim>\<open>{email: "a@b.com"}\<close> whenever zod's email check
  accepts that address.
\<close>

theorem enrich_validation_accepts:
  "((\<exists>v. enrichPersonInputSchema_parse fmt input = Inr v)
      \<longleftrightarrow> enrich_field_issues fmt input = []
          \<and> (truthy (rq_email input)
              \<or> truthy (rq_linkedin_url input)
              \<or> (truthy (rq_first_name input) \<and> truthy (rq_last_name input)
                  \<and> (truthy (rq_organization_name input) \<or> truthy (rq_domain input)))
              \<or> (truthy (rq_name input)
                  \<and> (truthy (rq_organization_name input) \<or> truthy (rq_domain input))))
          \<and> (truthy_flag (rq_run_waterfall_email input) \<or> truthy_flag (rq_run_waterfall_phone input)
                \<longrightarrow> truthy (rq_webhook_url input)))
   \<and> ((\<exists>v. enrichPersonInputSchema_parse fmt input = Inr v)
        \<longrightarrow> rq_email input \<noteq> None
            \<or> rq_linkedin_url input \<noteq> None
            \<or> (rq_first_name input \<noteq> None \<and> rq_last_name input \<noteq> None
                \<and> (rq_organization_name input \<noteq> None \<or> rq_domain input \<noteq> None))
            \<or> (rq_name input \<noteq> None
                \<and> (rq_organization_name input \<noteq> None \<or> rq_domain input \<noteq> None)))
   \<and> enrichPersonInputSchema_parse fmt no_fields = Inl (ZodError [Custom IDENTIFIER_MESSAGE])
   \<and> (is_email fmt ''a@b.com''
        \<longrightarrow> enrichPersonInputSchema_parse fmt email_only = Inr (enrich_defaults email_only))"
proof -
  let ?ids = "truthy (rq_email input)
              \<or> truthy (rq_linkedin_url input)
              \<or> (truthy (rq_first_name input) \<and> truthy (rq_last_name input)
                  \<and> (truthy (rq_organization_name input) \<or> truthy (rq_domain input)))
              \<or> (truthy (rq_name input)
                  \<and> (truthy (rq_organization_name input) \<or> truthy (rq_domain input)))"
  let ?hook = "truthy_flag (rq_run_waterfall_email input) \<or> truthy_flag (rq_run_waterfall_phone input)
                \<longrightarrow> truthy (rq_webhook_url input)"
  have ids: "identifier_refine (enrich_defaults input) = ?ids"
    by (simp add: identifier_refine_def enrich_defaults_def)
  have hook: "webhook_refine (enrich_defaults input) = ?hook"
    by (auto simp add: webhook_refine_def enrich_defaults_def)
  have acc: "(\<exists>v. enrichPersonInputSchema_parse fmt input = Inr v)
               \<longleftrightarrow> enrich_field_issues fmt input = [] \<and> ?ids \<and> ?hook"
    unfolding ids [symmetric] hook [symmetric]
    by (simp add: enrichPersonInputSchema_parse_def enrich_issues_def)
  have tr: "\<And>x. truthy x \<Longrightarrow> x \<noteq> None" by (simp add: truthy_def split: option.splits)
  have only_if: "(\<exists>v. enrichPersonInputSchema_parse fmt input = Inr v)
        \<longrightarrow> rq_email input \<noteq> None
            \<or> rq_linkedin_url input \<noteq> None
            \<or> (rq_first_name input \<noteq> None \<and> rq_last_name input \<noteq> None
                \<and> (rq_organization_name input \<noteq> None \<or> rq_domain input \<noteq> None))
            \<or> (rq_name input \<noteq> None
                \<and> (rq_organization_name input \<noteq> None \<or> rq_domain input \<noteq> None))"
  proof
    assume "\<exists>v. enrichPersonInputSchema_parse fmt input = Inr v"
    then have ?ids using acc by blast
    then show "rq_email input \<noteq> None
            \<or> rq_linkedin_url input \<noteq> None
            \<or> (rq_first_name input \<noteq> None \<and> rq_last_name input \<noteq> None
                \<and> (rq_organization_name input \<noteq> None \<or> rq_domain input \<noteq> None))
            \<or> (rq_name input \<noteq> None
                \<and> (rq_organization_name input \<noteq> None \<or> rq_domain input \<noteq> None))"
      using tr by blast
  qed
  have empty: "enrichPersonInputSchema_parse fmt no_fields = Inl (ZodError [Custom IDENTIFIER_MESSAGE])"
    by (simp add: enrichPersonInputSchema_parse_def enrich_issues_def enrich_field_issues_def
          check_field_def no_fields_def enrich_defaults_def identifier_refine_def
          webhook_refine_def truthy_def truthy_flag_def)
  have email: "is_email fmt ''a@b.com''
        \<longrightarrow> enrichPersonInputSchema_parse fmt email_only = Inr (enrich_defaults email_only)"
    by (simp add: enrichPersonInputSchema_parse_def enrich_issues_def enrich_field_issues_def
          check_field_def email_only_def no_fields_def enrich_defaults_def identifier_refine_def
          webhook_refine_def truthy_def truthy_flag_def)
  show ?thesis using acc only_if empty email by (intro conjI)
qed

theorem enrich_validation_accepts_witness:
  "is_email permissive_formats ''a@b.com''
   \<and> truthy (rq_email email_only)
   \<and> enrich_field_issues permissive_formats email_only = []
   \<and> enrichPersonInputSchema_parse permissive_formats email_only
      = Inr \<lparr> vi_email = Some ''a@b.com'', vi_linkedin_url = None, vi_first_name = None,
              vi_last_name = None, vi_name = None, vi_organization_name = None,
              vi_domain = None, vi_reveal_personal_emails = False,
              vi_reveal_phone_number = False, vi_run_waterfall_email = None,
              vi_run_waterfall_phone = None, vi_webhook_url = None \<rparr>"
proof -
  have e: "is_email permissive_formats ''a@b.com''" by (simp add: permissive_formats_def)
  have "enrichPersonInputSchema_parse permissive_formats email_only
          = Inr (enrich_defaults email_only)"
    using enrich_validation_accepts [of permissive_formats email_only] e by blast
  then show ?thesis using e
    by (simp add: enrich_defaults_def email_only_def no_fields_def truthy_def
          enrich_field_issues_def check_field_def)
qed

text \<open>
  C4 as stated fails in the ``if'' direction: an input that contains an email is
  rejected by the second refinement when it sets a waterfall flag without a
  \<^verbatim>\<open>webhook_url\<close>.
\<close>

theorem identifier_alone_does_not_suffice:
  "truthy (rq_email email_with_waterfall)
   \<and> enrichPersonInputSchema_parse permissive_formats email_with_waterfall
      = Inl (ZodError [Custom WEBHOOK_MESSAGE])"
  by (simp add: enrichPersonInputSchema_parse_def enrich_issues_def enrich_field_issues_def
        check_field_def email_with_waterfall_def no_fields_def enrich_defaults_def
        identifier_refine_def webhook_refine_def truthy_def truthy_flag_def
        permissive_formats_def)

text \<open>
  C1. An input with \<^verbatim>\<open>run_waterfall_email: true\<close> and no explicit \<^verbatim>\<open>webhook_url\<close>
  is rejected by the schema's second refinement, with or without a server default
  callback URL: the schema never sees the executor's \<open>serverWebhookUrl\<close>, so the
  fallback that the executor computes for this case is never reached.
\<close>

theorem server_default_webhook_never_consulted:
  "executeEnrichPerson fmt fetch client waterfall_without_webhook None
     = Inl (ZodError [Custom WEBHOOK_MESSAGE])
   \<and> executeEnrichPerson fmt fetch client waterfall_without_webhook
        (Some ''https://server.example.com/default'')
     = Inl (ZodError [Custom WEBHOOK_MESSAGE])"
proof -
  have "enrichPersonInputSchema_parse fmt waterfall_without_webhook
          = Inl (ZodError [Custom WEBHOOK_MESSAGE])"
    by (simp add: enrichPersonInputSchema_parse_def enrich_issues_def enrich_field_issues_def
          check_field_def waterfall_without_webhook_def no_fields_def enrich_defaults_def
          identifier_refine_def webhook_refine_def truthy_def truthy_flag_def)
  then show ?thesis by (simp add: executeEnrichPerson_def)
qed

end
